theory Spec2Isabelle
  imports Complex_Main "HOL-Library.Log_Nat"
begin

section \<open>Python strings\<close>

text \<open>
  A Python \<open>str\<close> is modelled as a \<^typ>\<open>string\<close>: a list of characters, each read as
  the code point of its number (0 to 255), so \<^const>\<open>length\<close> is Python's \<open>len\<close>.
\<close>

definition newline :: char where
  "newline = CHR 0x0A"

text \<open>\<open>str.isspace\<close> on one character, which is also the class \<open>\s\<close> of \<open>re\<close>.\<close>

definition is_space :: "char \<Rightarrow> bool" where
  "is_space c =
     (let n = (of_char c :: nat)
      in (9 \<le> n \<and> n \<le> 13) \<or> (28 \<le> n \<and> n \<le> 32) \<or> n = 133 \<or> n = 160)"

text \<open>The class \<open>\d\<close> of \<open>re\<close>.\<close>

definition is_digit :: "char \<Rightarrow> bool" where
  "is_digit c = (let n = (of_char c :: nat) in 48 \<le> n \<and> n \<le> 57)"

text \<open>\<open>str.lower\<close>: the letters A to Z, and the capital letters of Latin-1.\<close>

definition lower_char :: "char \<Rightarrow> char" where
  "lower_char c =
     (let n = (of_char c :: nat)
      in if (65 \<le> n \<and> n \<le> 90) \<or> (192 \<le> n \<and> n \<le> 222 \<and> n \<noteq> 215)
         then char_of (n + 32) else c)"

definition lower :: "string \<Rightarrow> string" where
  "lower s = map lower_char s"

text \<open>\<open>s.rstrip(chars)\<close>, \<open>s.strip()\<close>.\<close>

definition rstrip_chars :: "string \<Rightarrow> string \<Rightarrow> string" where
  "rstrip_chars cs s = rev (dropWhile (\<lambda>c. c \<in> set cs) (rev s))"

definition strip :: "string \<Rightarrow> string" where
  "strip s = rev (dropWhile is_space (rev (dropWhile is_space s)))"

text \<open>\<open>s.startswith(p)\<close>, \<open>sub in s\<close>, \<open>s.count(c)\<close> for one character.\<close>

definition startswith :: "string \<Rightarrow> string \<Rightarrow> bool" where
  "startswith s p = (take (length p) s = p)"

fun contains :: "string \<Rightarrow> string \<Rightarrow> bool" where
  "contains [] sub = (sub = [])"
| "contains (c # cs) sub = (startswith (c # cs) sub \<or> contains cs sub)"

definition count_char :: "string \<Rightarrow> char \<Rightarrow> nat" where
  "count_char s c = length (filter (\<lambda>x. x = c) s)"

text \<open>\<open>s.split(c)\<close> for one character: never empty, one more piece than separators.\<close>

fun split_char :: "char \<Rightarrow> string \<Rightarrow> string list" where
  "split_char sep [] = [[]]"
| "split_char sep (c # cs) =
     (case split_char sep cs of
        [] \<Rightarrow> [[c]]
      | p # ps \<Rightarrow> if c = sep then [] # p # ps else (c # p) # ps)"

text \<open>\<open>s.split('\n')[0]\<close>\<close>

definition first_line :: "string \<Rightarrow> string" where
  "first_line s = takeWhile (\<lambda>c. c \<noteq> newline) s"

text \<open>\<open>s.replace(old, new)\<close> for a non-empty \<open>old\<close>, from left to right.\<close>

fun replace_from :: "string \<Rightarrow> string \<Rightarrow> nat \<Rightarrow> string \<Rightarrow> string" where
  "replace_from old new skip [] = []"
| "replace_from old new skip (c # cs) =
     (if 0 < skip then replace_from old new (skip - 1) cs
      else if startswith (c # cs) old then new @ replace_from old new (length old - 1) cs
      else c # replace_from old new 0 cs)"

definition replace :: "string \<Rightarrow> string \<Rightarrow> string \<Rightarrow> string" where
  "replace s old new = replace_from old new 0 s"

text \<open>\<open>re.sub(r'\s+', ' ', s)\<close>: each maximal run of whitespace becomes one space.\<close>

fun collapse_whitespace :: "bool \<Rightarrow> string \<Rightarrow> string" where
  "collapse_whitespace in_run [] = []"
| "collapse_whitespace in_run (c # cs) =
     (if is_space c
      then (if in_run then collapse_whitespace True cs
            else CHR '' '' # collapse_whitespace True cs)
      else c # collapse_whitespace False cs)"

text \<open>\<open>float(s)\<close> and \<open>int(s)\<close> on a string of decimal digits.\<close>

definition digit_value :: "char \<Rightarrow> nat" where
  "digit_value c = of_char c - 48"

definition digits_value :: "string \<Rightarrow> nat" where
  "digits_value s = foldl (\<lambda>n c. 10 * n + digit_value c) 0 s"


section \<open>Python floats\<close>

text \<open>
  A Python \<open>float\<close> is an IEEE 754 double. A finite double is a real number, and the
  float fields of the models hold reals. An arithmetic operation returns the exact result
  rounded to the nearest double, ties to the even significand, and an infinity beyond the
  largest double; \<open>NaN\<close> is the result of the undefined operations. The negative zero is
  not told from zero.
\<close>

datatype pyfloat = Fin real | PInf | NInf | NaN

text \<open>The power of two of an integer exponent.\<close>

definition pow2 :: "int \<Rightarrow> real" where
  "pow2 k = (if 0 \<le> k then 2 ^ nat k else 1 / 2 ^ nat (- k))"

text \<open>The exponent \<open>e\<close> of a positive real \<open>x\<close>: \<open>2 ^ e \<le> x < 2 ^ (e + 1)\<close>.\<close>

definition binary_exponent :: "real \<Rightarrow> int" where
  "binary_exponent x =
     (if 1 \<le> x then bitlen \<lfloor>x\<rfloor> - 1
      else let k = bitlen \<lfloor>1 / x\<rfloor> - 1
           in if x * 2 ^ nat k = 1 then - k else - k - 1)"

definition round_half_even :: "real \<Rightarrow> int" where
  "round_half_even y =
     (let f = \<lfloor>y\<rfloor>; d = y - of_int f
      in if d < 1 / 2 then f
         else if 1 / 2 < d then f + 1
         else if even f then f else f + 1)"

text \<open>
  The nearest multiple of the spacing of the doubles around \<open>x\<close>: 53 significant bits,
  and the spacing \<open>2 ^ - 1074\<close> of the subnormal doubles below \<open>2 ^ - 1022\<close>.
\<close>

definition round53 :: "real \<Rightarrow> real" where
  "round53 x =
     (if x = 0 then 0
      else let a = \<bar>x\<bar>;
               q = pow2 (max (binary_exponent a) (- 1022) - 52)
           in sgn x * (of_int (round_half_even (a / q)) * q))"

text \<open>
  The double of an exact result: the rounded value, or an infinity when the rounded value
  has exponent 1024 or more, that is from \<open>2 ^ 1024\<close> on.
\<close>

definition to_float :: "real \<Rightarrow> pyfloat" where
  "to_float x =
     (let r = round53 x
      in if r = 0 then Fin 0
         else if 1024 \<le> binary_exponent \<bar>r\<bar> then (if 0 < r then PInf else NInf)
         else Fin r)"

fun fneg :: "pyfloat \<Rightarrow> pyfloat" where
  "fneg (Fin a) = Fin (- a)"
| "fneg PInf = NInf"
| "fneg NInf = PInf"
| "fneg NaN = NaN"

fun fabs :: "pyfloat \<Rightarrow> pyfloat" where
  "fabs (Fin a) = Fin \<bar>a\<bar>"
| "fabs PInf = PInf"
| "fabs NInf = PInf"
| "fabs NaN = NaN"

fun fadd :: "pyfloat \<Rightarrow> pyfloat \<Rightarrow> pyfloat" where
  "fadd (Fin a) (Fin b) = to_float (a + b)"
| "fadd NaN y = NaN"
| "fadd x NaN = NaN"
| "fadd PInf NInf = NaN"
| "fadd NInf PInf = NaN"
| "fadd PInf y = PInf"
| "fadd x PInf = PInf"
| "fadd NInf y = NInf"
| "fadd x NInf = NInf"

definition fsub :: "pyfloat \<Rightarrow> pyfloat \<Rightarrow> pyfloat" where
  "fsub x y = fadd x (fneg y)"

fun fmul :: "pyfloat \<Rightarrow> pyfloat \<Rightarrow> pyfloat" where
  "fmul (Fin a) (Fin b) = to_float (a * b)"
| "fmul NaN y = NaN"
| "fmul x NaN = NaN"
| "fmul (Fin a) y = (if a = 0 then NaN else if 0 < a then y else fneg y)"
| "fmul x (Fin b) = (if b = 0 then NaN else if 0 < b then x else fneg x)"
| "fmul PInf y = y"
| "fmul NInf y = fneg y"

text \<open>
  \<open>x / t\<close> for a finite \<open>t\<close> other than zero; Python raises \<open>ZeroDivisionError\<close> at zero,
  and the engine divides only under its guard \<open>0 < t\<close>.
\<close>

fun fdiv :: "pyfloat \<Rightarrow> real \<Rightarrow> pyfloat" where
  "fdiv (Fin a) t = to_float (a / t)"
| "fdiv PInf t = (if 0 < t then PInf else NInf)"
| "fdiv NInf t = (if 0 < t then NInf else PInf)"
| "fdiv NaN t = NaN"

text \<open>\<open>x < y\<close>, false when either side is \<open>NaN\<close>.\<close>

fun flt :: "pyfloat \<Rightarrow> pyfloat \<Rightarrow> bool" where
  "flt (Fin a) (Fin b) = (a < b)"
| "flt NaN y = False"
| "flt x NaN = False"
| "flt x NInf = False"
| "flt NInf y = True"
| "flt PInf y = False"
| "flt x PInf = True"

text \<open>\<open>max(0, x)\<close>: \<open>x\<close> when it is greater than 0, and 0 otherwise.\<close>

definition max_zero :: "pyfloat \<Rightarrow> pyfloat" where
  "max_zero x = (if flt (Fin 0) x then x else Fin 0)"



section \<open>The regular expressions of the parsers\<close>

text \<open>
  The patterns of the two parsers are run by a backtracking matcher with the priorities of
  Python's \<open>re\<close>: \<^term>\<open>rmatch\<close> lists the ways a pattern matches at a position, the
  one \<open>re\<close> finds first. Repetition is over character classes only, which is all the
  patterns below use. The flag \<open>ic\<close> is \<open>re.IGNORECASE\<close>; \<open>Any\<close> is the dot under
  \<open>re.DOTALL\<close> and \<open>Dot\<close> the dot without it; \<open>^\<close> and \<open>$\<close> are those without
  \<open>re.MULTILINE\<close>.
\<close>

datatype cls = Lit char | Any | Dot | Space | Digit | Range char char | OneOf string

fun in_cls :: "bool \<Rightarrow> cls \<Rightarrow> char \<Rightarrow> bool" where
  "in_cls ic (Lit a) c = (if ic then lower_char c = lower_char a else c = a)"
| "in_cls ic Any c = True"
| "in_cls ic Dot c = (c \<noteq> newline)"
| "in_cls ic Space c = is_space c"
| "in_cls ic Digit c = is_digit c"
| "in_cls ic (OneOf cs) c =
     (if ic then lower_char c \<in> lower_char ` set cs else c \<in> set cs)"
| "in_cls ic (Range a b) c =
     (((of_char a :: nat) \<le> of_char c \<and> (of_char c :: nat) \<le> of_char b) \<or>
      (ic \<and> (of_char a :: nat) \<le> of_char (lower_char c)
          \<and> (of_char (lower_char c) :: nat) \<le> of_char b))"

datatype rx =
    Eps
  | Ch cls
  | Bol
  | Eol
  | Seq rx rx
  | Alt rx rx
  | Opt rx
  | Star cls
  | Plus cls
  | PlusLazy cls
  | Grp nat rx
  | Ahead rx

text \<open>A literal word, and a sequence of patterns.\<close>

definition word :: "string \<Rightarrow> rx" where
  "word s = foldr (\<lambda>c r. Seq (Ch (Lit c)) r) s Eps"

definition seqs :: "rx list \<Rightarrow> rx" where
  "seqs rs = foldr Seq rs Eps"

text \<open>
  A matching state: the position, the text from there on, and the groups captured so far.
\<close>

type_synonym groups = "nat \<Rightarrow> string option"
type_synonym mstate = "nat \<times> string \<times> groups"

text \<open>The ways of consuming leading characters of a class, the shortest first.\<close>

fun reps :: "(char \<Rightarrow> bool) \<Rightarrow> nat \<Rightarrow> string \<Rightarrow> (nat \<times> string) list" where
  "reps p n [] = [(n, [])]"
| "reps p n (c # cs) = (n, c # cs) # (if p c then reps p (Suc n) cs else [])"

fun rmatch :: "bool \<Rightarrow> rx \<Rightarrow> mstate \<Rightarrow> mstate list" where
  "rmatch ic Eps st = [st]"
| "rmatch ic (Ch k) (n, s, g) =
     (case s of [] \<Rightarrow> [] | c # cs \<Rightarrow> if in_cls ic k c then [(Suc n, cs, g)] else [])"
| "rmatch ic Bol (n, s, g) = (if n = 0 then [(n, s, g)] else [])"
| "rmatch ic Eol (n, s, g) = (if s = [] \<or> s = [newline] then [(n, s, g)] else [])"
| "rmatch ic (Seq a b) st = concat (map (rmatch ic b) (rmatch ic a st))"
| "rmatch ic (Alt a b) st = rmatch ic a st @ rmatch ic b st"
| "rmatch ic (Opt a) st = rmatch ic a st @ [st]"
| "rmatch ic (Star k) (n, s, g) = map (\<lambda>(m, r). (m, r, g)) (rev (reps (in_cls ic k) n s))"
| "rmatch ic (Plus k) (n, s, g) =
     map (\<lambda>(m, r). (m, r, g)) (rev (tl (reps (in_cls ic k) n s)))"
| "rmatch ic (PlusLazy k) (n, s, g) =
     map (\<lambda>(m, r). (m, r, g)) (tl (reps (in_cls ic k) n s))"
| "rmatch ic (Grp i a) (n, s, g) =
     map (\<lambda>(m, r, h). (m, r, h(i \<mapsto> take (m - n) s))) (rmatch ic a (n, s, g))"
| "rmatch ic (Ahead a) st = (if rmatch ic a st = [] then [] else [st])"

text \<open>A match object: where the match starts and ends, and its groups.\<close>

type_synonym rematch = "nat \<times> nat \<times> groups"

text \<open>\<open>m.group(i) or ""\<close>\<close>

definition group :: "rematch \<Rightarrow> nat \<Rightarrow> string" where
  "group m i = (case snd (snd m) i of None \<Rightarrow> [] | Some s \<Rightarrow> s)"

text \<open>
  \<open>re.finditer\<close>: the matches from left to right, each search starting where the match
  before ended (\<open>skip\<close> counts the positions that match covered).
\<close>

fun finditer_from :: "bool \<Rightarrow> rx \<Rightarrow> nat \<Rightarrow> nat \<Rightarrow> string \<Rightarrow> rematch list" where
  "finditer_from ic r skip n [] =
     (if 0 < skip then []
      else (case rmatch ic r (n, [], Map.empty) of
              [] \<Rightarrow> []
            | (m, _, g) # _ \<Rightarrow> [(n, m, g)]))"
| "finditer_from ic r skip n (c # cs) =
     (if 0 < skip then finditer_from ic r (skip - 1) (Suc n) cs
      else (case rmatch ic r (n, c # cs, Map.empty) of
              [] \<Rightarrow> finditer_from ic r 0 (Suc n) cs
            | (m, _, g) # _ \<Rightarrow> (n, m, g) # finditer_from ic r (m - n - 1) (Suc n) cs))"

definition finditer :: "bool \<Rightarrow> rx \<Rightarrow> string \<Rightarrow> rematch list" where
  "finditer ic r s = finditer_from ic r 0 0 s"

text \<open>\<open>re.search\<close>: the leftmost match, or \<open>None\<close>.\<close>

fun search_from :: "bool \<Rightarrow> rx \<Rightarrow> nat \<Rightarrow> string \<Rightarrow> rematch option" where
  "search_from ic r n [] =
     (case rmatch ic r (n, [], Map.empty) of
        [] \<Rightarrow> None
      | (m, _, g) # _ \<Rightarrow> Some (n, m, g))"
| "search_from ic r n (c # cs) =
     (case rmatch ic r (n, c # cs, Map.empty) of
        [] \<Rightarrow> search_from ic r (Suc n) cs
      | (m, _, g) # _ \<Rightarrow> Some (n, m, g))"

definition search :: "bool \<Rightarrow> rx \<Rightarrow> string \<Rightarrow> rematch option" where
  "search ic r s = search_from ic r 0 s"


section \<open>The data model\<close>

text \<open>
  The pydantic models of \<open>models/rubric.py\<close>, \<open>models/submission.py\<close> and
  \<open>models/grade_result.py\<close> as records. A field keeps its name where the name is unique;
  \<open>id\<close>, \<open>text\<close>, \<open>value\<close>, \<open>notes\<close>, \<open>context\<close> and the names shared by two models
  carry the model's prefix. An \<open>Optional\<close> field is an \<open>option\<close>; a \<open>datetime\<close> is a
  number. The float fields that a rubric or a submission brings are finite; the total score
  and the percentage, which the engine computes, may be infinite.
\<close>

datatype QuestionType =
  TRUE_FALSE | NUMERIC | PROBABILITY | BIG_O | PROOF | MULTIPLE_CHOICE | SHORT_ANSWER | GRAPHING

datatype GradingRuleType =
  EXACT_MATCH | EQUIVALENT | PER_ITEM_PENALTY | NO_PARTIAL | PARTIAL_CREDIT

record GradingRule =
  rule_type :: GradingRuleType
  points_correct :: real
  points_incorrect :: real
  minimum_score :: real
  rule_notes :: "string option"

record Solution =
  sol_value :: string
  equivalent_forms :: "string list"
  explanation :: "string option"

record SubQuestion =
  sq_id :: string
  sq_text :: string
  points :: real
  grading_rule :: GradingRule
  solution :: Solution
  question_type :: QuestionType

record Question =
  number :: int
  q_text :: string
  sub_questions :: "SubQuestion list"
  q_total_points :: real
  q_context :: "string option"

record Rubric =
  rub_assignment_id :: string
  course :: string
  total_points :: real
  base_points :: real
  questions :: "Question list"
  general_notes :: "string option"

record StudentAnswer =
  sa_question_id :: string
  raw_text :: string
  parsed_value :: "string option"
  confidence :: real
  parsing_notes :: "string option"

record Submission =
  sub_student_id :: string
  student_name :: "string option"
  sub_assignment_id :: string
  file_path :: string
  answers :: "StudentAnswer list"
  submission_time :: "nat option"

record QuestionGrade =
  qg_question_id :: string
  points_earned :: real
  points_possible :: real
  student_answer :: string
  correct_answer :: string
  is_correct :: bool
  feedback :: string
  grading_notes :: "string option"

record GradeResult =
  submission_id :: string
  res_student_id :: string
  res_assignment_id :: string
  total_score :: pyfloat
  total_possible :: real
  percentage :: pyfloat
  question_grades :: "QuestionGrade list"
  overall_feedback :: string
  graded_at :: nat
  graded_by :: string
  needs_review :: bool
  review_reasons :: "string list"

text \<open>\<open>Submission.get_answer\<close>: the first answer with the id, or \<open>None\<close>.\<close>

definition get_answer :: "Submission \<Rightarrow> string \<Rightarrow> StudentAnswer option" where
  "get_answer submission qid = find (\<lambda>a. sa_question_id a = qid) (answers submission)"


section \<open>The submission parser\<close>

text \<open>
  \<open>SubmissionParser._calculate_confidence\<close>, one assignment after the other. The literals
  \<open>0.2\<close> and \<open>0.3\<close> are the doubles nearest to them and each subtraction is rounded; the
  values stay between 0 and 1, where nothing overflows.
\<close>

definition float_sub :: "real \<Rightarrow> real \<Rightarrow> real" where
  "float_sub a b = round53 (a - b)"

definition calculate_confidence :: "string \<Rightarrow> real" where
  "calculate_confidence answer_text =
     (if answer_text = [] then 0
      else
        let c0 = 1;
            c1 = (if 200 < length answer_text then float_sub c0 (round53 (2 / 10)) else c0);
            c2 = (if CHR ''?'' \<in> set answer_text then float_sub c1 (round53 (3 / 10)) else c1);
            c3 = (if 2 < count_char answer_text newline then float_sub c2 (round53 (2 / 10))
                  else c2);
            c4 = (if length answer_text < 2 then float_sub c3 (round53 (3 / 10)) else c3)
        in max 0 (min 1 c4))"

text \<open>\<open>SubmissionParser._clean_answer\<close>\<close>

definition strip_prefix :: "string \<Rightarrow> string \<Rightarrow> string" where
  "strip_prefix t prefix =
     (if startswith (lower t) prefix then strip (drop (length prefix) t) else t)"

definition clean_answer :: "string \<Rightarrow> string" where
  "clean_answer raw =
     (if raw = [] then []
      else rstrip_chars ''.,;:''
             (foldl strip_prefix (strip raw) [''answer:'', ''ans:'', ''solution:'', ''='']))"

text \<open>
  The pattern of \<open>_find_answer_blocks\<close>, read with \<open>re.IGNORECASE | re.DOTALL\<close>:
  \<^verbatim>\<open>(?:^|\n)\s*(?:\()?(\d+)\s*[.\-]?\s*([a-z])?(?:\)|\.|\:)?\s*(.+?)\<close>
  \<^verbatim>\<open>(?=(?:\n\s*(?:\()?\d+\s*[.\-]?\s*[a-z]?(?:\)|\.|\:)?)|$)\<close>
\<close>

definition marker_close :: rx where
  "marker_close =
     Opt (Alt (Ch (Lit (CHR '')''))) (Alt (Ch (Lit (CHR ''.''))) (Ch (Lit (CHR '':'')))))"

definition answer_pattern :: rx where
  "answer_pattern =
     seqs [Alt Bol (Ch (Lit newline)), Star Space, Opt (Ch (Lit (CHR ''(''))),
           Grp 1 (Plus Digit), Star Space, Opt (Ch (OneOf ''.-'')), Star Space,
           Opt (Grp 2 (Ch (Range (CHR ''a'') (CHR ''z'')))), marker_close, Star Space,
           Grp 3 (PlusLazy Any),
           Ahead (Alt (seqs [Ch (Lit newline), Star Space, Opt (Ch (Lit (CHR ''(''))),
                             Plus Digit, Star Space, Opt (Ch (OneOf ''.-'')), Star Space,
                             Opt (Ch (Range (CHR ''a'') (CHR ''z''))), marker_close])
                      Eol)]"

text \<open>
  \<open>SubmissionParser._find_answer_blocks\<close>: the loop over the matches stores, under the
  id of each marker, the first line of its payload and the confidence of the payload.
\<close>

definition block_id :: "rematch \<Rightarrow> string" where
  "block_id m = lower (group m 1 @ group m 2)"

definition block_entry :: "rematch \<Rightarrow> string \<times> real" where
  "block_entry m =
     (let answer_text = strip (group m 3);
          conf = calculate_confidence answer_text;
          line = strip (first_line answer_text)
      in (line, conf))"

definition store_block :: "(string \<rightharpoonup> string \<times> real) \<Rightarrow> rematch \<Rightarrow> (string \<rightharpoonup> string \<times> real)" where
  "store_block found m = found(block_id m \<mapsto> block_entry m)"

definition find_answer_blocks :: "string \<Rightarrow> (string \<rightharpoonup> string \<times> real)" where
  "find_answer_blocks txt = foldl store_block Map.empty (finditer True answer_pattern txt)"

text \<open>\<open>SubmissionParser._get_expected_questions\<close>\<close>

definition get_expected_questions :: "Rubric \<Rightarrow> string list" where
  "get_expected_questions rubric =
     concat (map (\<lambda>question. map sq_id (sub_questions question)) (questions rubric))"

text \<open>\<open>SubmissionParser._extract_answers\<close>\<close>

definition placeholder :: "string \<Rightarrow> StudentAnswer" where
  "placeholder q_id =
     \<lparr>sa_question_id = q_id, raw_text = [], parsed_value = Some [], confidence = 0,
      parsing_notes = None\<rparr>"

definition extract_answer :: "(string \<rightharpoonup> string \<times> real) \<Rightarrow> string \<Rightarrow> StudentAnswer" where
  "extract_answer found q_id =
     (case found q_id of
        Some (raw, conf) \<Rightarrow>
          \<lparr>sa_question_id = q_id, raw_text = raw, parsed_value = Some (clean_answer raw),
           confidence = conf, parsing_notes = None\<rparr>
      | None \<Rightarrow> placeholder q_id)"

definition extract_answers :: "string \<Rightarrow> string list \<Rightarrow> StudentAnswer list" where
  "extract_answers txt expected_questions =
     map (extract_answer (find_answer_blocks txt)) expected_questions"


section \<open>The rubric parser: grading rules\<close>

text \<open>
  \<open>PATTERNS["grading_note"]\<close>, read with \<open>re.IGNORECASE | re.DOTALL\<close>:
  \<^verbatim>\<open>Grading\s*(?:Note)?:?\s*(.+?)(?=\n\n|$)\<close>
\<close>

definition grading_note_pattern :: rx where
  "grading_note_pattern =
     seqs [word ''Grading'', Star Space, Opt (word ''Note''), Opt (Ch (Lit (CHR '':''))),
           Star Space, Grp 1 (PlusLazy Any),
           Ahead (Alt (Seq (Ch (Lit newline)) (Ch (Lit newline))) Eol)]"

text \<open>The pattern of the minimum, read without flags: \<^verbatim>\<open>min(?:imum)?\s*(\d+)\<close>\<close>

definition minimum_pattern :: rx where
  "minimum_pattern = seqs [word ''min'', Opt (word ''imum''), Star Space, Grp 1 (Plus Digit)]"

text \<open>\<open>RubricParser._extract_grading_rule\<close>\<close>

definition extract_grading_rule :: "string \<Rightarrow> GradingRule" where
  "extract_grading_rule txt =
     (case search True grading_note_pattern txt of
        None \<Rightarrow>
          \<lparr>rule_type = NO_PARTIAL, points_correct = 1, points_incorrect = 0,
           minimum_score = 0, rule_notes = None\<rparr>
      | Some m \<Rightarrow>
          let note = lower (group m 1) in
          if contains note ''+1'' \<and> contains note ''-1'' then
            let min_score =
                  (case search False minimum_pattern note of
                     Some min_match \<Rightarrow> real (digits_value (group min_match 1))
                   | None \<Rightarrow> 0)
            in \<lparr>rule_type = PER_ITEM_PENALTY, points_correct = 1, points_incorrect = - 1,
                minimum_score = min_score, rule_notes = Some note\<rparr>
          else if contains note ''partial'' then
            \<lparr>rule_type = PARTIAL_CREDIT, points_correct = 1, points_incorrect = 0,
             minimum_score = 0, rule_notes = Some note\<rparr>
          else
            \<lparr>rule_type = NO_PARTIAL, points_correct = 1, points_incorrect = 0,
             minimum_score = 0, rule_notes = None\<rparr>)"


section \<open>The comparator\<close>

text \<open>
  \<open>MathComparator\<close> calls SymPy, which is not part of the repository. The calls it makes
  are the fields of a record, over any type \<open>'e\<close> of expressions, and every statement
  about the comparator holds for every such record. A call that raises returns \<open>None\<close>
  where the caller catches every exception, and the class of the exception where the
  caller tells \<open>TypeError\<close> and \<open>ValueError\<close> from the others.
\<close>

datatype py_exception = TypeError | ValueError | OtherException

record 'e sympy =
  parse_expr :: "string \<Rightarrow> 'e option"
  parse_expr_n :: "string \<Rightarrow> 'e option"
  Rational :: "string \<Rightarrow> string \<Rightarrow> 'e option"
  Float :: "string \<Rightarrow> 'e option"
  simplify_diff :: "'e \<Rightarrow> 'e \<Rightarrow> 'e option"
  equals_zero :: "'e \<Rightarrow> bool"
  float_N :: "'e \<Rightarrow> py_exception + pyfloat"
  float_expr :: "'e \<Rightarrow> pyfloat option"

text \<open>
  \<open>parse_expr\<close> is \<open>parse_expr(expr, transformations=TRANSFORMATIONS)\<close> and
  \<open>parse_expr_n\<close> is \<open>parse_expr(expr, local_dict={'n': n})\<close>; \<open>simplify_diff a b\<close> is
  \<open>simplify(a - b)\<close> and \<open>equals_zero d\<close> is \<open>d == 0\<close>; \<open>float_N e\<close> is
  \<open>float(N(e))\<close> and \<open>float_expr e\<close> is \<open>float(e)\<close>.
\<close>

text \<open>\<open>FLOAT_TOLERANCE = 1e-6\<close>: the double nearest to \<open>1 / 10 ^ 6\<close>.\<close>

definition FLOAT_TOLERANCE :: pyfloat where
  "FLOAT_TOLERANCE = to_float (1 / 10 ^ 6)"

text \<open>\<open>MathComparator._normalize\<close>; the student's answer may be \<open>None\<close>.\<close>

definition normalize_str :: "string \<Rightarrow> string" where
  "normalize_str t = (if t = [] then [] else collapse_whitespace False (lower (strip t)))"

definition normalize_opt :: "string option \<Rightarrow> string" where
  "normalize_opt t = (case t of None \<Rightarrow> [] | Some s \<Rightarrow> normalize_str s)"

text \<open>\<open>MathComparator._compare_boolean\<close>\<close>

definition true_values :: "string list" where
  "true_values = [''true'', ''t'', ''1'', ''yes'', ''y'']"

definition false_values :: "string list" where
  "false_values = [''false'', ''f'', ''0'', ''no'', ''n'']"

definition to_bool :: "string \<Rightarrow> bool option" where
  "to_bool s =
     (if s \<in> set true_values then Some True
      else if s \<in> set false_values then Some False
      else None)"

definition compare_boolean :: "string \<Rightarrow> string \<Rightarrow> bool \<times> real" where
  "compare_boolean student correct =
     (case (to_bool student, to_bool correct) of
        (Some student_bool, Some correct_bool) \<Rightarrow> (student_bool = correct_bool, 1)
      | _ \<Rightarrow> (False, 1 / 2))"

text \<open>
  \<open>MathComparator._parse_math\<close>: the parser of SymPy, then a fraction, then a float; each
  attempt that raises is passed over. The multiplication and division signs are the
  characters 215 and 247.
\<close>

definition parse_fraction :: "'e sympy \<Rightarrow> string \<Rightarrow> 'e option" where
  "parse_fraction S expr =
     (if CHR ''/'' \<in> set expr then
        (case split_char (CHR ''/'') expr of
           [numer, denom] \<Rightarrow> Rational S (strip numer) (strip denom)
         | _ \<Rightarrow> None)
      else None)"

definition parse_math :: "'e sympy \<Rightarrow> string \<Rightarrow> 'e option" where
  "parse_math S expr0 =
     (if expr0 = [] then None
      else
        let expr1 = replace expr0 ''^'' ''**'';
            expr2 = replace expr1 [CHR 0xD7] ''*'';
            expr = replace expr2 [CHR 0xF7] ''/''
        in (case parse_expr S expr of
              Some e \<Rightarrow> Some e
            | None \<Rightarrow>
                (case parse_fraction S expr of
                   Some e \<Rightarrow> Some e
                 | None \<Rightarrow> Float S expr)))"

text \<open>
  \<open>MathComparator._compare_numeric\<close>. The inner \<open>try\<close> passes over a \<open>TypeError\<close> or a
  \<open>ValueError\<close> of the numeric evaluation; the outer one answers \<open>(False, 0.5)\<close> to any
  other exception.
\<close>

definition compare_values :: "'e sympy \<Rightarrow> 'e \<Rightarrow> 'e \<Rightarrow> bool \<times> real" where
  "compare_values S student_expr correct_expr =
     (case float_N S student_expr of
        Inl e \<Rightarrow> if e = TypeError \<or> e = ValueError then (False, 9 / 10) else (False, 1 / 2)
      | Inr student_val \<Rightarrow>
          (case float_N S correct_expr of
             Inl e \<Rightarrow> if e = TypeError \<or> e = ValueError then (False, 9 / 10) else (False, 1 / 2)
           | Inr correct_val \<Rightarrow>
               if flt (fabs (fsub student_val correct_val)) FLOAT_TOLERANCE
               then (True, 95 / 100)
               else (False, 9 / 10)))"

definition compare_numeric :: "'e sympy \<Rightarrow> string \<Rightarrow> string \<Rightarrow> bool \<times> real" where
  "compare_numeric S student correct =
     (case (parse_math S student, parse_math S correct) of
        (Some student_expr, Some correct_expr) \<Rightarrow>
          (case simplify_diff S student_expr correct_expr of
             None \<Rightarrow> (False, 1 / 2)
           | Some d \<Rightarrow>
               if equals_zero S d then (True, 1)
               else compare_values S student_expr correct_expr)
      | _ \<Rightarrow> (False, 1 / 2))"

text \<open>
  \<open>MathComparator._compare_probability\<close>. \<open>float(None)\<close> raises, as any failure inside
  the \<open>try\<close> does, and the bare \<open>except\<close> passes over it.
\<close>

definition scaled_match :: "'e sympy \<Rightarrow> string \<Rightarrow> string \<Rightarrow> bool" where
  "scaled_match S student correct =
     (case parse_math S student of
        None \<Rightarrow> False
      | Some se \<Rightarrow>
          (case float_expr S se of
             None \<Rightarrow> False
           | Some sv \<Rightarrow>
               (case parse_math S (rstrip_chars ''%'' correct) of
                  None \<Rightarrow> False
                | Some ce \<Rightarrow>
                    (case float_expr S ce of
                       None \<Rightarrow> False
                     | Some correct_val \<Rightarrow>
                         flt (fabs (fsub (fmul sv (Fin 100)) correct_val))
                           FLOAT_TOLERANCE))))"

definition compare_probability :: "'e sympy \<Rightarrow> string \<Rightarrow> string \<Rightarrow> bool \<times> real" where
  "compare_probability S student0 correct0 =
     (let student = rstrip_chars ''%'' student0;
          correct = rstrip_chars ''%'' correct0
      in if CHR ''%'' \<in> set correct \<and> scaled_match S student correct then (True, 95 / 100)
         else compare_numeric S student correct)"

text \<open>
  \<open>MathComparator._extract_big_o\<close>, with the pattern \<^verbatim>\<open>[oO]\s*\(\s*(.+?)\s*\)\<close> read
  without flags, and \<open>_normalize_big_o\<close>.
\<close>

definition big_o_pattern :: rx where
  "big_o_pattern =
     seqs [Ch (OneOf ''oO''), Star Space, Ch (Lit (CHR ''('')), Star Space,
           Grp 1 (PlusLazy Dot), Star Space, Ch (Lit (CHR '')''))]"

definition extract_big_o :: "string \<Rightarrow> string" where
  "extract_big_o expr =
     (case search False big_o_pattern expr of
        Some m \<Rightarrow> group m 1
      | None \<Rightarrow> strip expr)"

definition normalize_big_o :: "string \<Rightarrow> string" where
  "normalize_big_o expr0 =
     (let expr1 = lower expr0;
          expr2 = replace expr1 '' '' [];
          expr3 = replace expr2 ''^'' ''**'';
          expr4 = replace expr3 ''log(n)'' ''logn''
      in replace expr4 ''log n'' ''logn'')"

text \<open>\<open>MathComparator._compare_big_o\<close>\<close>

definition symbolic_match :: "'e sympy \<Rightarrow> string \<Rightarrow> string \<Rightarrow> bool" where
  "symbolic_match S student_inner correct_inner =
     (case parse_expr_n S student_inner of
        None \<Rightarrow> False
      | Some se \<Rightarrow>
          (case parse_expr_n S correct_inner of
             None \<Rightarrow> False
           | Some ce \<Rightarrow>
               (case simplify_diff S se ce of
                  None \<Rightarrow> False
                | Some d \<Rightarrow> equals_zero S d)))"

definition compare_big_o :: "'e sympy \<Rightarrow> string \<Rightarrow> string \<Rightarrow> bool \<times> real" where
  "compare_big_o S student correct =
     (let student_inner0 = extract_big_o student;
          correct_inner0 = extract_big_o correct
      in if student_inner0 = [] \<or> correct_inner0 = [] then (False, 1 / 2)
         else
           let student_inner = normalize_big_o student_inner0;
               correct_inner = normalize_big_o correct_inner0
           in if student_inner = correct_inner then (True, 1)
              else if symbolic_match S student_inner correct_inner then (True, 95 / 100)
              else (False, 8 / 10))"

text \<open>\<open>MathComparator._compare_multiple_choice\<close>\<close>

definition compare_multiple_choice :: "string \<Rightarrow> string \<Rightarrow> bool \<times> real" where
  "compare_multiple_choice student correct = (take 1 student = take 1 correct, 1)"

text \<open>\<open>MathComparator.compare\<close>\<close>

definition compare ::
  "'e sympy \<Rightarrow> string option \<Rightarrow> string \<Rightarrow> QuestionType \<Rightarrow> string list \<Rightarrow> bool \<times> real" where
  "compare S student_ans correct_ans qtype forms =
     (let student = normalize_opt student_ans;
          correct = normalize_str correct_ans
      in if student = [] then (False, 1)
         else if student = correct then (True, 1)
         else if forms \<noteq> [] \<and> student \<in> set (map normalize_str forms) then (True, 1)
         else (case qtype of
                 TRUE_FALSE \<Rightarrow> compare_boolean student correct
               | NUMERIC \<Rightarrow> compare_numeric S student correct
               | PROBABILITY \<Rightarrow> compare_probability S student correct
               | BIG_O \<Rightarrow> compare_big_o S student correct
               | MULTIPLE_CHOICE \<Rightarrow> compare_multiple_choice student correct
               | _ \<Rightarrow> (False, 3 / 10)))"


section \<open>The grading engine\<close>

text \<open>
  The engine holds its comparator in \<open>self.comparator\<close>; here it is the argument \<open>cmp\<close>.
  \<open>QuestionGrade.student_answer\<close> is declared \<open>str\<close>, so building a \<open>QuestionGrade\<close>
  from a parsed value that is \<open>None\<close> raises pydantic's \<open>ValidationError\<close>.
\<close>

type_synonym comparator =
  "string option \<Rightarrow> string \<Rightarrow> QuestionType \<Rightarrow> string list \<Rightarrow> bool \<times> real"

type_synonym compare_call = "string option \<times> string \<times> QuestionType \<times> string list"

datatype grade_error = ValidationError

text \<open>\<open>GradingEngine._apply_grading_rule\<close>\<close>

definition apply_grading_rule :: "bool \<Rightarrow> GradingRule \<Rightarrow> real \<Rightarrow> real" where
  "apply_grading_rule correct rule max_points =
     (if rule_type rule = NO_PARTIAL then (if correct then max_points else 0)
      else if rule_type rule = PER_ITEM_PENALTY then
        max (minimum_score rule) (if correct then points_correct rule else points_incorrect rule)
      else if rule_type rule = PARTIAL_CREDIT then (if correct then max_points else 0)
      else (if correct then max_points else 0))"

text \<open>
  \<open>GradingEngine._generate_feedback\<close>. The check mark and the cross are written as the
  bytes of their UTF-8 encoding; an f-string prints \<open>None\<close> as the word.
\<close>

definition check_mark :: string where
  "check_mark = [CHR 0xE2, CHR 0x9C, CHR 0x93]"

definition cross_mark :: string where
  "cross_mark = [CHR 0xE2, CHR 0x9C, CHR 0x97]"

definition format_opt :: "string option \<Rightarrow> string" where
  "format_opt v = (case v of None \<Rightarrow> ''None'' | Some s \<Rightarrow> s)"

definition generate_feedback :: "bool \<Rightarrow> string option \<Rightarrow> string \<Rightarrow> string" where
  "generate_feedback correct student_ans correct_ans =
     (if correct then check_mark @ '' Correct!''
      else cross_mark @ '' Incorrect. Your answer: '' @ format_opt student_ans @
           ''. Correct answer: '' @ correct_ans)"

text \<open>
  \<open>GradingEngine._grade_question\<close>. The second component of the result lists the calls
  of \<open>self.comparator.compare\<close> made on the way, with their arguments.
\<close>

definition grade_question ::
  "comparator \<Rightarrow> SubQuestion \<Rightarrow> StudentAnswer option
     \<Rightarrow> (grade_error + QuestionGrade) \<times> compare_call list" where
  "grade_question cmp sub_question student_ans =
     (case student_ans of
        None \<Rightarrow>
          (Inr \<lparr>qg_question_id = sq_id sub_question, points_earned = 0,
                points_possible = points sub_question, student_answer = [],
                correct_answer = sol_value (solution sub_question), is_correct = False,
                feedback = ''No answer provided.'', grading_notes = None\<rparr>, [])
      | Some a \<Rightarrow>
          if raw_text a = [] then
            (Inr \<lparr>qg_question_id = sq_id sub_question, points_earned = 0,
                  points_possible = points sub_question, student_answer = [],
                  correct_answer = sol_value (solution sub_question), is_correct = False,
                  feedback = ''No answer provided.'', grading_notes = None\<rparr>, [])
          else if confidence a < 1 / 2 then
            (Inr \<lparr>qg_question_id = sq_id sub_question, points_earned = 0,
                  points_possible = points sub_question, student_answer = raw_text a,
                  correct_answer = sol_value (solution sub_question), is_correct = False,
                  feedback = ''Could not reliably extract answer. Flagged for manual review.'',
                  grading_notes = Some ''Low confidence extraction''\<rparr>, [])
          else
            let call = (parsed_value a, sol_value (solution sub_question),
                        question_type sub_question,
                        equivalent_forms (solution sub_question));
                (correct, conf) = cmp (parsed_value a) (sol_value (solution sub_question))
                                    (question_type sub_question)
                                    (equivalent_forms (solution sub_question));
                notes = (if conf < 7 / 10 then Some ''Answer comparison uncertain'' else None);
                pts = apply_grading_rule correct (grading_rule sub_question)
                        (points sub_question);
                fb = generate_feedback correct (parsed_value a)
                       (sol_value (solution sub_question))
            in (case parsed_value a of
                  None \<Rightarrow> (Inl ValidationError, [call])
                | Some parsed \<Rightarrow>
                    (Inr \<lparr>qg_question_id = sq_id sub_question, points_earned = pts,
                          points_possible = points sub_question, student_answer = parsed,
                          correct_answer = sol_value (solution sub_question),
                          is_correct = correct, feedback = fb, grading_notes = notes\<rparr>,
                     [call])))"

text \<open>\<open>GradingEngine._generate_overall_feedback\<close>\<close>

definition generate_overall_feedback :: "QuestionGrade list \<Rightarrow> string" where
  "generate_overall_feedback qgs =
     (let incorrect = filter (\<lambda>qg. \<not> is_correct qg) qgs
      in if incorrect = [] then ''Excellent work! All answers are correct.''
         else foldl (\<lambda>fb qg. fb @ ''- Question '' @ qg_question_id qg @ '': '' @ feedback qg
                                 @ [newline])
                (''Overall good effort. Areas for improvement:'' @ [newline]) incorrect)"

text \<open>
  \<open>GradingEngine.grade\<close>. The two loops carry the grades so far and the running total; an
  exception of \<open>_grade_question\<close> ends them. \<open>now\<close> is the reading of the clock.
\<close>

fun grade_sub_questions ::
  "comparator \<Rightarrow> Submission \<Rightarrow> SubQuestion list \<Rightarrow> QuestionGrade list \<times> pyfloat
     \<Rightarrow> grade_error + QuestionGrade list \<times> pyfloat" where
  "grade_sub_questions cmp submission [] st = Inr st"
| "grade_sub_questions cmp submission (sub_q # rest) (qgs, running) =
     (case fst (grade_question cmp sub_q (get_answer submission (sq_id sub_q))) of
        Inl e \<Rightarrow> Inl e
      | Inr g \<Rightarrow>
          grade_sub_questions cmp submission rest
            (qgs @ [g], fadd running (Fin (points_earned g))))"

fun grade_questions ::
  "comparator \<Rightarrow> Submission \<Rightarrow> Question list \<Rightarrow> QuestionGrade list \<times> pyfloat
     \<Rightarrow> grade_error + QuestionGrade list \<times> pyfloat" where
  "grade_questions cmp submission [] st = Inr st"
| "grade_questions cmp submission (question # rest) st =
     (case grade_sub_questions cmp submission (sub_questions question) st of
        Inl e \<Rightarrow> Inl e
      | Inr st' \<Rightarrow> grade_questions cmp submission rest st')"

definition grade :: "comparator \<Rightarrow> nat \<Rightarrow> Submission \<Rightarrow> Rubric \<Rightarrow> grade_error + GradeResult" where
  "grade cmp now submission rubric =
     (case grade_questions cmp submission (questions rubric) ([], Fin (base_points rubric)) of
        Inl e \<Rightarrow> Inl e
      | Inr (qgs, running) \<Rightarrow>
          let score = max_zero running
          in Inr \<lparr>submission_id = sub_student_id submission @ ''_'' @ sub_assignment_id submission,
                  res_student_id = sub_student_id submission,
                  res_assignment_id = sub_assignment_id submission,
                  total_score = score,
                  total_possible = total_points rubric,
                  percentage = (if 0 < total_points rubric
                                then fmul (fdiv score (total_points rubric)) (Fin 100)
                                else Fin 0),
                  question_grades = qgs,
                  overall_feedback = generate_overall_feedback qgs,
                  graded_at = now,
                  graded_by = ''MathGrader AI'',
                  needs_review = False,
                  review_reasons = []\<rparr>)"


section \<open>The specification's wording, and the inputs of the examples\<close>

text \<open>
  The confidence score as the specification words it: each payload starts at 1.0, loses
  0.2 when longer than 200 characters, 0.3 when it has a question mark, 0.2 when it spans
  more than two lines and 0.3 when shorter than 2 characters, and is clamped to [0, 1].
\<close>

definition lines_spanned :: "string \<Rightarrow> nat" where
  "lines_spanned t = count_char t newline + 1"

definition spec_confidence :: "string \<Rightarrow> real" where
  "spec_confidence t =
     (let c0 = 1;
          c1 = (if 200 < length t then float_sub c0 (round53 (2 / 10)) else c0);
          c2 = (if CHR ''?'' \<in> set t then float_sub c1 (round53 (3 / 10)) else c1);
          c3 = (if 2 < lines_spanned t then float_sub c2 (round53 (2 / 10)) else c2);
          c4 = (if length t < 2 then float_sub c3 (round53 (3 / 10)) else c3)
      in max 0 (min 1 c4))"



text \<open>
  A stand-in for SymPy on the inputs of the examples: the decimals \<open>0.25\<close> and \<open>25\<close> and
  the symbols \<open>x\<close> and \<open>y\<close>, parsed, subtracted and evaluated as SymPy does (a symbol
  has no float: \<open>float(N(x))\<close> raises \<open>TypeError\<close>).
\<close>

datatype stub_expr = Num real | Sym string | Diff stub_expr stub_expr

definition stub_parse :: "string \<Rightarrow> stub_expr option" where
  "stub_parse s =
     (if s = ''0.25'' then Some (Num (1 / 4))
      else if s = ''25'' then Some (Num 25)
      else if s = ''x'' then Some (Sym ''x'')
      else if s = ''y'' then Some (Sym ''y'')
      else None)"

definition stub_simplify_diff :: "stub_expr \<Rightarrow> stub_expr \<Rightarrow> stub_expr option" where
  "stub_simplify_diff a b =
     (case (a, b) of
        (Num u, Num v) \<Rightarrow> Some (Num (u - v))
      | _ \<Rightarrow> if a = b then Some (Num 0) else Some (Diff a b))"

definition sympy_stub :: "stub_expr sympy" where
  "sympy_stub =
     \<lparr>parse_expr = stub_parse,
      parse_expr_n = stub_parse,
      Rational = (\<lambda>numer denom. None),
      Float = (\<lambda>s. None),
      simplify_diff = stub_simplify_diff,
      equals_zero = (\<lambda>d. d = Num 0),
      float_N = (\<lambda>e. case e of Num u \<Rightarrow> Inr (to_float u) | _ \<Rightarrow> Inl TypeError),
      float_expr = (\<lambda>e. case e of Num u \<Rightarrow> Some (to_float u) | _ \<Rightarrow> None)\<rparr>"

text \<open>
  A rubric of one question with the sub-questions \<open>1a\<close> and \<open>1b\<close>, and three submissions:
  one extracted with low confidence, one answered well, one whose answer has no parsed
  value.
\<close>

definition example_rule :: GradingRule where
  "example_rule =
     \<lparr>rule_type = NO_PARTIAL, points_correct = 1, points_incorrect = 0, minimum_score = 0,
      rule_notes = None\<rparr>"

definition example_sub_question :: "string \<Rightarrow> SubQuestion" where
  "example_sub_question q_id =
     \<lparr>sq_id = q_id, sq_text = ''Is the sky blue?'', points = 5, grading_rule = example_rule,
      solution = \<lparr>sol_value = ''True'', equivalent_forms = [], explanation = None\<rparr>,
      question_type = TRUE_FALSE\<rparr>"

definition example_rubric :: Rubric where
  "example_rubric =
     \<lparr>rub_assignment_id = ''HW10'', course = ''CSCI-C241'', total_points = 28,
      base_points = 18,
      questions = [\<lparr>number = 1, q_text = ''Boolean Questions'',
                    sub_questions = [example_sub_question ''1a'', example_sub_question ''1b''],
                    q_total_points = 10, q_context = None\<rparr>],
      general_notes = None\<rparr>"

definition example_answer :: "string \<Rightarrow> string \<Rightarrow> string option \<Rightarrow> real \<Rightarrow> StudentAnswer" where
  "example_answer q_id raw parsed conf =
     \<lparr>sa_question_id = q_id, raw_text = raw, parsed_value = parsed, confidence = conf,
      parsing_notes = None\<rparr>"

definition example_submission :: "StudentAnswer list \<Rightarrow> Submission" where
  "example_submission as =
     \<lparr>sub_student_id = ''001'', student_name = None, sub_assignment_id = ''HW10'',
      file_path = ''student_001.pdf'', answers = as, submission_time = None\<rparr>"

definition low_confidence_submission :: Submission where
  "low_confidence_submission =
     example_submission
       [example_answer ''1a'' ''Is it true?'' (Some ''Is it true?'') (4 / 10),
        example_answer ''1b'' ''T'' (Some ''T'') 1]"







section \<open>Python floats: the rounding\<close>

lemma pow2_Suc: "pow2 (k + 1) = 2 * pow2 k"
proof -
  consider "0 \<le> k" | "k = - 1" | "k < - 1" by linarith
  then show ?thesis
  proof cases
    case 1
    then have "nat (k + 1) = Suc (nat k)" by simp
    with 1 show ?thesis by (simp add: pow2_def)
  next
    case 2
    then show ?thesis by (simp add: pow2_def)
  next
    case 3
    then have "nat (- k) = Suc (nat (- (k + 1)))" by simp
    with 3 show ?thesis by (simp add: pow2_def)
  qed
qed

text \<open>The exponent is the one of the binary representation.\<close>

lemma binary_exponent_bounds:
  assumes "0 < x"
  shows "pow2 (binary_exponent x) \<le> x \<and> x < pow2 (binary_exponent x + 1)"
proof (cases "1 \<le> x")
  case True
  then have m: "0 < \<lfloor>x\<rfloor>" by linarith
  define e where "e = bitlen \<lfloor>x\<rfloor> - 1"
  from bitlen_bounds [OF m] have b: "2 ^ nat e \<le> \<lfloor>x\<rfloor>" "\<lfloor>x\<rfloor> < 2 ^ nat (e + 1)"
    by (auto simp: e_def)
  from m have e0: "0 \<le> e" by (simp add: e_def bitlen_alt_def)
  from b(1) have "(2::real) ^ nat e \<le> of_int \<lfloor>x\<rfloor>"
    by (metis of_int_le_iff of_int_numeral of_int_power)
  then have lo: "(2::real) ^ nat e \<le> x" by linarith
  from b(2) have "\<lfloor>x\<rfloor> + 1 \<le> 2 ^ nat (e + 1)" by simp
  then have "of_int (\<lfloor>x\<rfloor> + 1) \<le> (2::real) ^ nat (e + 1)"
    by (metis of_int_le_iff of_int_numeral of_int_power)
  then have hi: "x < (2::real) ^ nat (e + 1)" by linarith
  from True have "binary_exponent x = e"
    by (simp add: binary_exponent_def e_def)
  with e0 lo hi show ?thesis
    by (simp add: pow2_def)
next
  case False
  with assms have x: "0 < x" "x < 1" by auto
  define k where "k = bitlen \<lfloor>1 / x\<rfloor> - 1"
  from x have "1 < 1 / x" by simp
  then have m: "0 < \<lfloor>1 / x\<rfloor>" by linarith
  from bitlen_bounds [OF m] have b: "2 ^ nat k \<le> \<lfloor>1 / x\<rfloor>" "\<lfloor>1 / x\<rfloor> < 2 ^ nat (k + 1)"
    by (auto simp: k_def)
  from m have k0: "0 \<le> k" by (simp add: k_def bitlen_alt_def)
  from b(1) have "(2::real) ^ nat k \<le> of_int \<lfloor>1 / x\<rfloor>"
    by (metis of_int_le_iff of_int_numeral of_int_power)
  then have "(2::real) ^ nat k \<le> 1 / x" by linarith
  with x have up: "x * 2 ^ nat k \<le> 1"
    by (simp add: field_simps)
  from b(2) have "\<lfloor>1 / x\<rfloor> + 1 \<le> 2 ^ nat (k + 1)" by simp
  then have "of_int (\<lfloor>1 / x\<rfloor> + 1) \<le> (2::real) ^ nat (k + 1)"
    by (metis of_int_le_iff of_int_numeral of_int_power)
  then have "1 / x < (2::real) ^ nat (k + 1)" by linarith
  with x have lo: "1 < x * 2 ^ nat (k + 1)"
    by (simp add: field_simps)
  show ?thesis
  proof (cases "x * 2 ^ nat k = 1")
    case True
    with False have e: "binary_exponent x = - k"
      by (simp add: binary_exponent_def k_def Let_def)
    from True x have "k \<noteq> 0" by auto
    with k0 have "\<not> 0 \<le> - k" by simp
    with True have "pow2 (- k) = x"
      by (simp add: pow2_def field_simps)
    with x pow2_Suc [of "- k"] e show ?thesis
      by simp
  next
    case ne: False
    with False have e: "binary_exponent x = - (k + 1)"
      by (simp add: binary_exponent_def k_def Let_def)
    from k0 have p1: "pow2 (- (k + 1)) = 1 / 2 ^ nat (k + 1)"
      by (simp add: pow2_def)
    from k0 have nk: "nat (k + 1) = Suc (nat k)" by simp
    from up ne have lt: "x * 2 ^ nat k < 1" by simp
    have pos: "(0::real) < 2 ^ nat (k + 1)" by simp
    from lo pos have "1 / 2 ^ nat (k + 1) \<le> x"
      by (simp add: field_simps)
    then have "pow2 (- (k + 1)) \<le> x"
      unfolding p1 .
    moreover have "(2::real) ^ nat (k + 1) = 2 * 2 ^ nat k"
      by (simp only: nk power_Suc)
    with lt have "x < 2 * (1 / 2 ^ nat (k + 1))"
      by (simp add: field_simps)
    then have "x < 2 * pow2 (- (k + 1))"
      unfolding p1 .
    ultimately show ?thesis
      using pow2_Suc [of "- (k + 1)"] e by simp
  qed
qed

lemma pow2_pos: "0 < pow2 k"
  by (simp add: pow2_def)

lemma pow2_add_nat: "pow2 (k + int n) = 2 ^ n * pow2 k"
proof (induction n)
  case 0
  then show ?case by simp
next
  case (Suc n)
  have "k + int (Suc n) = (k + int n) + 1"
    by simp
  then have "pow2 (k + int (Suc n)) = pow2 ((k + int n) + 1)"
    by (rule arg_cong)
  also have "\<dots> = 2 * pow2 (k + int n)"
    by (rule pow2_Suc)
  finally show ?case
    by (simp add: Suc.IH)
qed

lemma pow2_mono:
  assumes "a \<le> b"
  shows "pow2 a \<le> pow2 b"
proof -
  from assms have b: "b = a + int (nat (b - a))" by simp
  have "pow2 a \<le> 2 ^ nat (b - a) * pow2 a"
    using pow2_pos [of a] by simp
  also have "\<dots> = pow2 (a + int (nat (b - a)))"
    by (simp only: pow2_add_nat)
  finally show ?thesis
    using b by simp
qed

lemma exponent_overflow:
  assumes "0 < r"
  shows "1024 \<le> binary_exponent r \<longleftrightarrow> 2 ^ 1024 \<le> r"
proof
  assume "1024 \<le> binary_exponent r"
  then have "pow2 1024 \<le> pow2 (binary_exponent r)"
    by (rule pow2_mono)
  also from binary_exponent_bounds [OF assms] have "\<dots> \<le> r"
    by simp
  finally show "2 ^ 1024 \<le> r"
    by (simp add: pow2_def)
next
  assume big: "2 ^ 1024 \<le> r"
  show "1024 \<le> binary_exponent r"
  proof (rule ccontr)
    assume "\<not> 1024 \<le> binary_exponent r"
    then have "binary_exponent r + 1 \<le> 1024"
      by simp
    then have "pow2 (binary_exponent r + 1) \<le> pow2 1024"
      by (rule pow2_mono)
    with binary_exponent_bounds [OF assms] have "r < pow2 1024"
      by simp
    with big show False
      by (simp add: pow2_def)
  qed
qed

text \<open>The infinities begin at \<open>2 ^ 1024\<close>.\<close>

lemma to_float_threshold:
  "to_float x =
     (if 2 ^ 1024 \<le> round53 x then PInf
      else if round53 x \<le> - (2 ^ 1024) then NInf
      else Fin (round53 x))"
proof -
  consider "round53 x = 0" | "0 < round53 x" | "round53 x < 0" by linarith
  then show ?thesis
  proof cases
    case 1
    then show ?thesis by (simp add: to_float_def)
  next
    case 2
    with exponent_overflow [of "round53 x"] show ?thesis
      by (simp add: to_float_def Let_def)
  next
    case 3
    with exponent_overflow [of "- round53 x"] show ?thesis
      by (simp add: to_float_def Let_def)
  qed
qed

text \<open>
  Python prints these six values as \<open>0.2\<close>, \<open>0.3\<close>, \<open>0.7\<close>, \<open>0.49999999999999994\<close>,
  \<open>28.000000000000004\<close> and \<open>1e-06\<close>.
\<close>

lemma round53_examples:
  "round53 (2 / 10) = 3602879701896397 / 2 ^ 54"
  "round53 (3 / 10) = 5404319552844595 / 2 ^ 54"
  "float_sub 1 (round53 (3 / 10)) = 3152519739159347 / 2 ^ 52"
  "float_sub (float_sub 1 (round53 (3 / 10))) (round53 (2 / 10)) = 9007199254740991 / 2 ^ 54"
  "fmul (fdiv (Fin 7) 25) (Fin 100) = Fin (28 + 1 / 2 ^ 48)"
  "FLOAT_TOLERANCE = Fin (4722366482869645 / 2 ^ 72)"
  by code_simp+


section \<open>The confidence of an extracted payload\<close>

lemma calculate_confidence_range:
  "0 \<le> calculate_confidence t \<and> calculate_confidence t \<le> 1"
  by (simp add: calculate_confidence_def Let_def)

text \<open>
  A payload of 2 to 200 characters with a question mark and more than two newlines scores
  \<open>(1.0 - 0.3) - 0.2\<close>, which in doubles is below one half.
\<close>

lemma calculate_confidence_below_half:
  "calculate_confidence ''a?\<newline>b\<newline>c\<newline>d'' = 9007199254740991 / 2 ^ 54 \<and>
   calculate_confidence ''a?\<newline>b\<newline>c\<newline>d'' < 1 / 2"
  by code_simp

text \<open>
  Claim C8, as the specification words it, fails on the code at two payloads. A payload of
  three lines has two newline characters, and the code deducts for more than two of them:
  it scores 1.0 where the wording gives \<open>1.0 - 0.2\<close>. The empty payload is answered 0.0 by
  the guard at the head of the function, where the wording gives \<open>1.0 - 0.3\<close>.
\<close>

theorem calculate_confidence_counterexample:
  "calculate_confidence ''ab\<newline>cd\<newline>ef'' = 1 \<and>
   spec_confidence ''ab\<newline>cd\<newline>ef'' = 3602879701896397 / 2 ^ 52 \<and>
   calculate_confidence ''ab\<newline>cd\<newline>ef'' \<noteq> spec_confidence ''ab\<newline>cd\<newline>ef'' \<and>
   calculate_confidence [] = 0 \<and>
   spec_confidence [] = 3152519739159347 / 2 ^ 52 \<and>
   calculate_confidence [] \<noteq> spec_confidence []"
  by code_simp

text \<open>
  Claim C8, amended: the empty payload scores 0.0; every other payload starts at 1.0 and
  loses, in this order and each time by a subtraction of doubles, 0.2 when longer than 200
  characters, 0.3 when it has a question mark, 0.2 when it has more than two newline
  characters and 0.3 when shorter than 2 characters, the result clamped to [0, 1].
\<close>

theorem calculate_confidence_formula:
  "calculate_confidence t =
     (if t = [] then 0
      else max 0 (min 1
             ((if length t < 2 then (\<lambda>c. float_sub c (round53 (3 / 10))) else id)
               ((if 2 < count_char t newline then (\<lambda>c. float_sub c (round53 (2 / 10))) else id)
                 ((if CHR ''?'' \<in> set t then (\<lambda>c. float_sub c (round53 (3 / 10))) else id)
                   ((if 200 < length t then (\<lambda>c. float_sub c (round53 (2 / 10))) else id)
                      1))))))"
proof -
  define A where "A = (200 < length t)"
  define B where "B = (CHR ''?'' \<in> set t)"
  define C where "C = (2 < count_char t newline)"
  define D where "D = (length t < 2)"
  have "calculate_confidence t =
     (if t = [] then 0
      else max 0 (min 1
             ((if D then (\<lambda>c. float_sub c (round53 (3 / 10))) else id)
               ((if C then (\<lambda>c. float_sub c (round53 (2 / 10))) else id)
                 ((if B then (\<lambda>c. float_sub c (round53 (3 / 10))) else id)
                   ((if A then (\<lambda>c. float_sub c (round53 (2 / 10))) else id)
                      1))))))"
    unfolding calculate_confidence_def Let_def A_def [symmetric] B_def [symmetric]
      C_def [symmetric] D_def [symmetric]
    by (cases A; cases B; cases C; cases D; simp)
  then show ?thesis
    unfolding A_def B_def C_def D_def .
qed


section \<open>The grading rules of the rubric parser\<close>

text \<open>
  Claim C5, as stated, fails on the note of the repository's own test rubric: the rule is
  a per-item penalty with floor 0 and points-if-incorrect -1, and 0 is not below -1.
\<close>

theorem extract_grading_rule_counterexample:
  "rule_type (extract_grading_rule ''Grading: +1 correct, -1 incorrect, minimum 0'')
     = PER_ITEM_PENALTY \<and>
   \<not> minimum_score (extract_grading_rule ''Grading: +1 correct, -1 incorrect, minimum 0'')
       \<le> points_incorrect
            (extract_grading_rule ''Grading: +1 correct, -1 incorrect, minimum 0'')"
  by code_simp

text \<open>
  Claim C5, amended: every per-item-penalty rule that the parser produces awards 1 point
  if correct and -1 if incorrect, and its floor is at least 0; so points-if-incorrect is
  below the floor.
\<close>

theorem extract_grading_rule_penalty:
  "rule_type (extract_grading_rule txt) = PER_ITEM_PENALTY \<Longrightarrow>
     points_correct (extract_grading_rule txt) = 1 \<and>
     points_incorrect (extract_grading_rule txt) = - 1 \<and>
     0 \<le> minimum_score (extract_grading_rule txt) \<and>
     points_incorrect (extract_grading_rule txt) < minimum_score (extract_grading_rule txt)"
  by (auto simp: extract_grading_rule_def Let_def split: option.splits if_splits)

theorem extract_grading_rule_penalty_witness:
  "rule_type (extract_grading_rule ''Grading note: +1/-1 min 2'') = PER_ITEM_PENALTY \<and>
   points_incorrect (extract_grading_rule ''Grading note: +1/-1 min 2'') = - 1 \<and>
   points_incorrect (extract_grading_rule ''Grading note: +1/-1 min 2'')
     < minimum_score (extract_grading_rule ''Grading note: +1/-1 min 2'')"
proof -
  have h: "rule_type (extract_grading_rule ''Grading note: +1/-1 min 2'') = PER_ITEM_PENALTY"
    by code_simp
  from extract_grading_rule_penalty [OF h] h show ?thesis
    by simp
qed


section \<open>The comparator on equal answers\<close>

text \<open>
  Claim C2, as stated, fails at the empty answer: the comparator answers \<open>(False, 1.0)\<close>
  to an empty student text before it looks at the correct answer.
\<close>

theorem compare_reflexive_counterexample:
  "compare sympy_stub (Some []) [] TRUE_FALSE [] = (False, 1) \<and>
   compare sympy_stub (Some []) [] TRUE_FALSE [] \<noteq> (True, 1)"
  by (simp add: compare_def normalize_opt_def normalize_str_def)

text \<open>
  Claim C2, amended: for every answer string \<open>x\<close> and every answer type \<open>T\<close>,
  \<open>compare(x, x, T, [])\<close> is \<open>(True, 1.0)\<close> when the normalized text of \<open>x\<close> is not empty,
  and \<open>(False, 1.0)\<close> when it is empty, whatever SymPy does.
\<close>

theorem compare_reflexive:
  "(normalize_str x \<noteq> [] \<longrightarrow> compare S (Some x) x T [] = (True, 1)) \<and>
   (normalize_str x = [] \<longrightarrow> compare S (Some x) x T [] = (False, 1))"
  by (simp add: compare_def normalize_opt_def)

theorem compare_reflexive_witness:
  "normalize_str ''1/4'' \<noteq> [] \<and>
   compare sympy_stub (Some ''1/4'') ''1/4'' PROBABILITY [] = (True, 1) \<and>
   normalize_str '' '' = [] \<and>
   compare sympy_stub (Some '' '') '' '' BIG_O [] = (False, 1)"
proof -
  have h: "normalize_str ''1/4'' \<noteq> []" and e: "normalize_str '' '' = []"
    by code_simp+
  from compare_reflexive [of "''1/4''" sympy_stub PROBABILITY]
    compare_reflexive [of "'' ''" sympy_stub BIG_O] h e
  show ?thesis
    by simp
qed


section \<open>Grading one sub-question\<close>

text \<open>
  Claim C6: a student answer with non-empty raw text and extraction confidence below 0.5
  earns 0 points and is not correct; its feedback says that the answer could not be
  reliably extracted and that it is flagged for manual review, its note records the low
  confidence, and no call of the comparator is made.
\<close>

theorem grade_question_low_confidence:
  "raw_text a \<noteq> [] \<Longrightarrow> confidence a < 1 / 2 \<Longrightarrow>
   grade_question cmp sq (Some a) =
     (Inr \<lparr>qg_question_id = sq_id sq, points_earned = 0, points_possible = points sq,
           student_answer = raw_text a, correct_answer = sol_value (solution sq),
           is_correct = False,
           feedback = ''Could not reliably extract answer. Flagged for manual review.'',
           grading_notes = Some ''Low confidence extraction''\<rparr>, [])"
  by (simp add: grade_question_def)

theorem grade_question_low_confidence_witness:
  "raw_text (example_answer ''1a'' ''Is it true?'' (Some ''Is it true?'') (4 / 10)) \<noteq> [] \<and>
   confidence (example_answer ''1a'' ''Is it true?'' (Some ''Is it true?'') (4 / 10)) < 1 / 2 \<and>
   snd (grade_question (compare sympy_stub) (example_sub_question ''1a'')
          (Some (example_answer ''1a'' ''Is it true?'' (Some ''Is it true?'') (4 / 10)))) = [] \<and>
   map_sum id points_earned
     (fst (grade_question (compare sympy_stub) (example_sub_question ''1a'')
             (Some (example_answer ''1a'' ''Is it true?'' (Some ''Is it true?'') (4 / 10)))))
     = Inr 0"
proof -
  let ?a = "example_answer ''1a'' ''Is it true?'' (Some ''Is it true?'') (4 / 10)"
  have h1: "raw_text ?a \<noteq> []" and h2: "confidence ?a < 1 / 2"
    by (simp_all add: example_answer_def)
  from grade_question_low_confidence [OF h1 h2] h1 h2 show ?thesis
    by simp
qed

section \<open>The answer blocks of a submission\<close>

lemma foldl_store_block:
  "foldl store_block found ms q =
     (if filter (\<lambda>m. block_id m = q) ms = [] then found q
      else Some (block_entry (last (filter (\<lambda>m. block_id m = q) ms))))"
proof (induction ms rule: rev_induct)
  case Nil
  then show ?case by simp
next
  case (snoc m ms)
  then show ?case by (simp add: store_block_def)
qed

lemma find_answer_blocks_eq:
  "find_answer_blocks txt q =
     (if filter (\<lambda>m. block_id m = q) (finditer True answer_pattern txt) = [] then None
      else Some (block_entry (last (filter (\<lambda>m. block_id m = q)
                                     (finditer True answer_pattern txt)))))"
  by (simp add: find_answer_blocks_def foldl_store_block)

lemma find_answer_blocks_None:
  "find_answer_blocks txt q = None \<longleftrightarrow> q \<notin> block_id ` set (finditer True answer_pattern txt)"
  by (auto simp: find_answer_blocks_eq filter_empty_conv)




section \<open>One answer per expected sub-question\<close>

text \<open>
  Claim C9: the answers extracted for a rubric are one per expected sub-question id, in
  the flattened order of the key; an expected id that no marker of the text resolves to
  gets the placeholder with empty raw text and confidence 0.0, and an id that was found
  gets the raw text, cleaned value and confidence recorded for it.
\<close>

theorem extract_answers_one_per_expected:
  "map sa_question_id (extract_answers txt (get_expected_questions rubric))
     = get_expected_questions rubric \<and>
   (\<forall>i < length (get_expected_questions rubric).
      get_expected_questions rubric ! i \<notin> block_id ` set (finditer True answer_pattern txt) \<longrightarrow>
      extract_answers txt (get_expected_questions rubric) ! i =
        \<lparr>sa_question_id = get_expected_questions rubric ! i, raw_text = [],
         parsed_value = Some [], confidence = 0, parsing_notes = None\<rparr>) \<and>
   (\<forall>i < length (get_expected_questions rubric). \<forall>raw conf.
      find_answer_blocks txt (get_expected_questions rubric ! i) = Some (raw, conf) \<longrightarrow>
      extract_answers txt (get_expected_questions rubric) ! i =
        \<lparr>sa_question_id = get_expected_questions rubric ! i, raw_text = raw,
         parsed_value = Some (clean_answer raw), confidence = conf, parsing_notes = None\<rparr>)"
proof -
  have ids: "sa_question_id (extract_answer found q) = q" for found q
    by (simp add: extract_answer_def placeholder_def split: option.splits)
  have "map sa_question_id (extract_answers txt qs) = qs" for qs
    by (induction qs) (simp_all add: extract_answers_def ids)
  moreover have "extract_answer (find_answer_blocks txt) q = placeholder q"
    if "q \<notin> block_id ` set (finditer True answer_pattern txt)" for q
  proof -
    from that have "find_answer_blocks txt q = None"
      by (simp add: find_answer_blocks_None)
    then show ?thesis
      by (simp add: extract_answer_def)
  qed
  ultimately show ?thesis
    by (simp add: extract_answers_def placeholder_def extract_answer_def)
qed

theorem extract_answers_one_per_expected_witness:
  "get_expected_questions example_rubric = [''1a'', ''1b''] \<and>
   ''1b'' \<notin> block_id ` set (finditer True answer_pattern ''1a) T'') \<and>
   map sa_question_id (extract_answers ''1a) T'' (get_expected_questions example_rubric))
     = [''1a'', ''1b''] \<and>
   extract_answers ''1a) T'' (get_expected_questions example_rubric) ! 1 = placeholder ''1b''"
proof -
  have q: "get_expected_questions example_rubric = [''1a'', ''1b'']"
    by (simp add: get_expected_questions_def example_rubric_def example_sub_question_def)
  have h: "''1b'' \<notin> block_id ` set (finditer True answer_pattern ''1a) T'')"
    by code_simp
  from extract_answers_one_per_expected [of "''1a) T''" example_rubric] q h show ?thesis
    by (auto simp: placeholder_def)
qed

section \<open>Grading a submission\<close>









lemma grade_Inr:
  "grade cmp now submission rubric = Inr r \<Longrightarrow>
     \<exists>qgs t. grade_questions cmp submission (questions rubric) ([], Fin (base_points rubric))
               = Inr (qgs, t) \<and>
       question_grades r = qgs \<and> total_score r = max_zero t \<and>
       total_possible r = total_points rubric \<and>
       percentage r = (if 0 < total_points rubric
                       then fmul (fdiv (max_zero t) (total_points rubric)) (Fin 100)
                       else Fin 0) \<and>
       \<not> needs_review r \<and> review_reasons r = []"
  by (auto simp: grade_def Let_def split: sum.splits prod.splits)





text \<open>
  Claim C4 fails on the code: \<open>grade\<close> never sets the review flag. On the submission
  whose answer to \<open>1a\<close> was extracted with confidence 0.4, the grade of \<open>1a\<close> carries the
  low-confidence note and the result is not flagged.
\<close>

theorem grade_low_confidence_not_flagged:
  "map_sum id (\<lambda>r. (needs_review r, review_reasons r, map grading_notes (question_grades r)))
     (grade (compare sympy_stub) 0 low_confidence_submission example_rubric)
   = Inr (False, [], [Some ''Low confidence extraction'', None])"
  by code_simp

lemma grade_never_flags:
  "grade cmp now submission rubric = Inr r \<Longrightarrow> \<not> needs_review r \<and> review_reasons r = []"
  using grade_Inr by blast


section \<open>The probability comparison\<close>

text \<open>
  The percent signs are stripped before the test for a percent sign: when the correct
  answer has percent signs only as its suffix, the scaled comparison is never made.
\<close>

lemma rstrip_chars_suffix:
  assumes "c \<notin> set body"
  shows "rstrip_chars [c] (body @ replicate k c) = body"
proof -
  have "dropWhile (\<lambda>x. x \<in> set [c]) (replicate k c @ rev body) = dropWhile (\<lambda>x. x \<in> set [c]) (rev body)"
    by (rule dropWhile_append2) simp
  also from assms have "\<dots> = rev body"
    by (cases "rev body") (auto simp: rev_eq_Cons_iff)
  finally show ?thesis
    by (simp add: rstrip_chars_def)
qed

lemma compare_probability_percent_suffix:
  assumes "CHR ''%'' \<notin> set body"
  shows "compare_probability S student (body @ replicate k (CHR ''%''))
           = compare_numeric S (rstrip_chars ''%'' student) body"
  using assms by (simp add: compare_probability_def Let_def rstrip_chars_suffix)

text \<open>
  Claim C3 fails on the code at the student answer \<open>0.25\<close> against the correct answer
  \<open>25%\<close>: the student's value times 100 equals the correct value, and the answer is
  \<open>(False, 0.9)\<close>, that of the numeric path on \<open>0.25\<close> and \<open>25\<close>.
\<close>

theorem compare_probability_percent_example:
  "compare sympy_stub (Some ''0.25'') ''25%'' PROBABILITY [] = (False, 9 / 10) \<and>
   compare_probability sympy_stub ''0.25'' ''25%'' = (False, 9 / 10) \<and>
   scaled_match sympy_stub ''0.25'' ''25%''"
  by code_simp


section \<open>The numeric comparison\<close>

text \<open>
  Claim C7, as stated, fails where the numeric evaluation raises \<open>TypeError\<close>: the
  symbols \<open>x\<close> and \<open>y\<close> parse, their difference is not zero, \<open>float(N(x))\<close> raises,
  and the answer is \<open>(False, 0.9)\<close>, not \<open>(False, 0.5)\<close>.
\<close>

theorem compare_numeric_counterexample:
  "parse_math sympy_stub ''x'' = Some (Sym ''x'') \<and>
   parse_math sympy_stub ''y'' = Some (Sym ''y'') \<and>
   float_N sympy_stub (Sym ''x'') = Inl TypeError \<and>
   compare_numeric sympy_stub ''x'' ''y'' = (False, 9 / 10) \<and>
   compare_numeric sympy_stub ''x'' ''y'' \<noteq> (False, 1 / 2)"
  by code_simp

text \<open>
  Claim C7, amended. If a side does not parse, or simplifying the difference raises, the
  answer is \<open>(False, 0.5)\<close>. Where both sides parse: a difference that simplifies to
  zero gives \<open>(True, 1.0)\<close>; else, when both sides evaluate, \<open>(True, 0.95)\<close> within the
  tolerance 1e-6 (the difference of the two doubles below the double \<open>1e-6\<close>) and
  \<open>(False, 0.9)\<close> outside it; a \<open>TypeError\<close> or \<open>ValueError\<close> of the
  evaluation gives \<open>(False, 0.9)\<close>, and any other exception \<open>(False, 0.5)\<close>.
\<close>

theorem compare_numeric_cases:
  "(parse_math S student = None \<or> parse_math S correct = None \<longrightarrow>
      compare_numeric S student correct = (False, 1 / 2)) \<and>
   (\<forall>a b. parse_math S student = Some a \<and> parse_math S correct = Some b \<longrightarrow>
      (simplify_diff S a b = None \<longrightarrow> compare_numeric S student correct = (False, 1 / 2)) \<and>
      (\<forall>d. simplify_diff S a b = Some d \<longrightarrow>
         (equals_zero S d \<longrightarrow> compare_numeric S student correct = (True, 1)) \<and>
         (\<not> equals_zero S d \<longrightarrow>
            (\<forall>u v. float_N S a = Inr u \<and> float_N S b = Inr v \<longrightarrow>
               compare_numeric S student correct
                 = (if flt (fabs (fsub u v)) FLOAT_TOLERANCE then (True, 95 / 100)
                    else (False, 9 / 10))) \<and>
            (float_N S a = Inl TypeError \<or> float_N S a = Inl ValueError \<longrightarrow>
               compare_numeric S student correct = (False, 9 / 10)) \<and>
            (\<forall>u. float_N S a = Inr u \<and>
                 (float_N S b = Inl TypeError \<or> float_N S b = Inl ValueError) \<longrightarrow>
               compare_numeric S student correct = (False, 9 / 10)) \<and>
            (float_N S a = Inl OtherException \<longrightarrow>
               compare_numeric S student correct = (False, 1 / 2)) \<and>
            (\<forall>u. float_N S a = Inr u \<and> float_N S b = Inl OtherException \<longrightarrow>
               compare_numeric S student correct = (False, 1 / 2)))))"
  by (auto simp: compare_numeric_def compare_values_def split: option.splits sum.splits)


theorem compare_numeric_cases_witness:
  "parse_math sympy_stub ''0.25'' = Some (Num (1 / 4)) \<and>
   parse_math sympy_stub ''25'' = Some (Num 25) \<and>
   simplify_diff sympy_stub (Num (1 / 4)) (Num 25) = Some (Num (- 99 / 4)) \<and>
   \<not> equals_zero sympy_stub (Num (- 99 / 4)) \<and>
   float_N sympy_stub (Num (1 / 4)) = Inr (Fin (1 / 4)) \<and>
   float_N sympy_stub (Num 25) = Inr (Fin 25) \<and>
   \<not> flt (fabs (fsub (Fin (1 / 4)) (Fin 25))) FLOAT_TOLERANCE \<and>
   compare_numeric sympy_stub ''0.25'' ''25'' = (False, 9 / 10)"
proof -
  have p1: "parse_math sympy_stub ''0.25'' = Some (Num (1 / 4))"
    and p2: "parse_math sympy_stub ''25'' = Some (Num 25)"
    and f1: "float_N sympy_stub (Num (1 / 4)) = Inr (Fin (1 / 4))"
    and f2: "float_N sympy_stub (Num 25) = Inr (Fin 25)"
    and far: "\<not> flt (fabs (fsub (Fin (1 / 4)) (Fin 25))) FLOAT_TOLERANCE"
    by code_simp+
  have d: "simplify_diff sympy_stub (Num (1 / 4)) (Num 25) = Some (Num (- 99 / 4))"
    and z: "\<not> equals_zero sympy_stub (Num (- 99 / 4))"
    by (simp_all add: sympy_stub_def stub_simplify_diff_def)
  from compare_numeric_cases [of sympy_stub "''0.25''" "''25''"] p1 p2 d z f1 f2
  have "compare_numeric sympy_stub ''0.25'' ''25''
          = (if flt (fabs (fsub (Fin (1 / 4)) (Fin 25))) FLOAT_TOLERANCE then (True, 95 / 100)
             else (False, 9 / 10))"
    by blast
  with p1 p2 d z f1 f2 far show ?thesis
    by simp
qed

end
